theory Spec2Isabelle
  imports Main
begin

section \<open>Text\<close>

text \<open>
  Python strings are sequences of code points. A \<^typ>\<open>char\<close> stands for one code point
  below 256; the two character classes the source relies on are the ones of the Python
  runtime on that range: \<open>\w\<close> of the \<open>re\<close> module on \<open>str\<close> patterns (alphanumeric
  or underscore) and the whitespace that \<open>str.strip()\<close> removes.
\<close>

definition code_point :: "char \<Rightarrow> nat" where
  "code_point c = of_char c"

definition is_alnum :: "char \<Rightarrow> bool" where
  "is_alnum c =
     (let n = code_point c in
        (48 \<le> n \<and> n \<le> 57) \<or> (65 \<le> n \<and> n \<le> 90) \<or> (97 \<le> n \<and> n \<le> 122) \<or>
        n = 170 \<or> n = 178 \<or> n = 179 \<or> n = 181 \<or> n = 185 \<or> n = 186 \<or>
        n = 188 \<or> n = 189 \<or> n = 190 \<or>
        (192 \<le> n \<and> n \<le> 255 \<and> n \<noteq> 215 \<and> n \<noteq> 247))"

definition is_space :: "char \<Rightarrow> bool" where
  "is_space c =
     (let n = code_point c in
        (9 \<le> n \<and> n \<le> 13) \<or> (28 \<le> n \<and> n \<le> 32) \<or> n = 133 \<or> n = 160)"

definition is_word :: "char \<Rightarrow> bool" where
  "is_word c = (is_alnum c \<or> c = CHR ''_'')"

text \<open>
  The character class of \<open>regex = r"[^\w \.\-\+]+"\<close> is negated: \<open>kept\<close> is its
  complement, the characters a substitution leaves in place.
\<close>

definition kept :: "char \<Rightarrow> bool" where
  "kept c = (is_word c \<or> c = CHR '' '' \<or> c = CHR ''.'' \<or> c = CHR ''-'' \<or> c = CHR ''+'')"

text \<open>\<open>" ".join(word)\<close>\<close>

fun join_space :: "string list \<Rightarrow> string" where
  "join_space [] = []"
| "join_space [s] = s"
| "join_space (s # t # ss) = s @ CHR '' '' # join_space (t # ss)"

text \<open>\<open>word.strip()\<close>\<close>

definition strip :: "string \<Rightarrow> string" where
  "strip s = dropWhile is_space (rev (dropWhile is_space (rev s)))"

text \<open>The argument of \<open>extract_text_only\<close> is a \<open>str\<close>, or a \<open>tuple\<close> or \<open>list\<close> of them.\<close>

datatype text_arg = Str string | Seq "string list"

fun joined :: "text_arg \<Rightarrow> string" where
  "joined (Str s) = s"
| "joined (Seq ss) = join_space ss"

text \<open>
  \<open>re.sub(regex, "", word)\<close> deletes every maximal run of characters outside the class,
  which leaves the characters of \<open>kept\<close> in their order.
\<close>

definition extract_text_only :: "text_arg \<Rightarrow> string" where
  "extract_text_only word = strip (filter kept (joined word))"

text \<open>
  The normalizer as the specification words it: the allowed set is alphanumeric,
  whitespace, period, hyphen and plus sign.
\<close>

definition spec_allowed :: "char \<Rightarrow> bool" where
  "spec_allowed c = (is_alnum c \<or> is_space c \<or> c = CHR ''.'' \<or> c = CHR ''-'' \<or> c = CHR ''+'')"

definition spec_normalize :: "text_arg \<Rightarrow> string" where
  "spec_normalize word = strip (filter spec_allowed (joined word))"

section \<open>Values, errors and the pattern language of \<open>re.sub\<close>\<close>

text \<open>
  The dictionaries the extractors build map string keys to \<open>None\<close>, a \<open>str\<close> or (for
  the name of \<open>get_basic_details\<close>) a tuple of \<open>str\<close>.
\<close>

datatype val = VNone | VStr string | VTuple "string list"

type_synonym pydict = "string \<rightharpoonup> val"

datatype error =
  AttributeError | IndexError | KeyError | TypeError | re_error |
  NoSuchElementException | WebDriverException

fun opt_val :: "string option \<Rightarrow> val" where
  "opt_val None = VNone"
| "opt_val (Some s) = VStr s"

text \<open>\<open>s.split(sep)\<close> for a separator of one character: never an empty list.\<close>

fun split_on :: "char \<Rightarrow> string \<Rightarrow> string list" where
  "split_on sep [] = [[]]"
| "split_on sep (c # cs) =
     (if c = sep then [] # split_on sep cs
      else (case split_on sep cs of [] \<Rightarrow> [[c]] | w # ws \<Rightarrow> (c # w) # ws))"

text \<open>
  \<open>get_experience\<close> passes a normalized text to \<open>re.sub\<close> as the pattern. Such a text
  holds only characters of \<open>kept\<close>, and of those the \<open>re\<close> module reads two specially:
  a period matches any character but a newline, and a plus sign repeats the atom before
  it (one plus greedily, two possessively; a plus with nothing to repeat and a third plus
  are rejected with \<open>re.error\<close>). Every other character of \<open>kept\<close> matches itself.
  The pattern language below is that one, for patterns made of kept characters.
\<close>

datatype atom = Lit char | AnyChar

datatype quant = Once | Greedy | Possessive

type_synonym piece = "atom \<times> quant"

definition atom_of :: "char \<Rightarrow> atom" where
  "atom_of c = (if c = CHR ''.'' then AnyChar else Lit c)"

fun compile_acc :: "piece list \<Rightarrow> string \<Rightarrow> error + piece list" where
  "compile_acc acc [] = Inr (rev acc)"
| "compile_acc acc (c # cs) =
     (if c = CHR ''+'' then
        (case acc of
           [] \<Rightarrow> Inl re_error
         | (a, Once) # r \<Rightarrow> compile_acc ((a, Greedy) # r) cs
         | (a, Greedy) # r \<Rightarrow> compile_acc ((a, Possessive) # r) cs
         | (a, Possessive) # r \<Rightarrow> Inl re_error)
      else compile_acc ((atom_of c, Once) # acc) cs)"

definition compile :: "string \<Rightarrow> error + piece list" where
  "compile pattern = compile_acc [] pattern"

fun accepts :: "atom \<Rightarrow> char \<Rightarrow> bool" where
  "accepts (Lit a) c = (c = a)"
| "accepts AnyChar c = (c \<noteq> CHR 0x0A)"

fun first_some :: "'a option list \<Rightarrow> 'a option" where
  "first_some [] = None"
| "first_some (None # xs) = first_some xs"
| "first_some (Some x # xs) = Some x"

text \<open>
  \<open>match_at ps s\<close> is the length of the match of the pattern at the start of \<open>s\<close>, in
  the order a backtracking matcher tries the repetitions (longest first).
\<close>

fun match_at :: "piece list \<Rightarrow> string \<Rightarrow> nat option" where
  "match_at [] s = Some 0"
| "match_at ((a, Once) # ps) s =
     (case s of
        [] \<Rightarrow> None
      | c # cs \<Rightarrow> if accepts a c then map_option Suc (match_at ps cs) else None)"
| "match_at ((a, Possessive) # ps) s =
     (let n = length (takeWhile (accepts a) s)
      in if n = 0 then None else map_option ((+) n) (match_at ps (drop n s)))"
| "match_at ((a, Greedy) # ps) s =
     first_some (map (\<lambda>n. map_option ((+) n) (match_at ps (drop n s)))
                     (rev [1 ..< Suc (length (takeWhile (accepts a) s))]))"

text \<open>
  \<open>re.sub(pattern, "", s)\<close>: from left to right, the leftmost match is deleted and the
  scan goes on after it; the second argument counts the characters of the current match
  still to delete. An empty match deletes nothing.
\<close>

fun delete_matches :: "piece list \<Rightarrow> nat \<Rightarrow> string \<Rightarrow> string" where
  "delete_matches ps k [] = []"
| "delete_matches ps (Suc k) (c # cs) = delete_matches ps k cs"
| "delete_matches ps 0 (c # cs) =
     (case match_at ps (c # cs) of
        None \<Rightarrow> c # delete_matches ps 0 cs
      | Some 0 \<Rightarrow> c # delete_matches ps 0 cs
      | Some (Suc n) \<Rightarrow> delete_matches ps n cs)"

text \<open>
  The pattern is compiled before the subject is looked at: an invalid pattern raises
  \<open>re.error\<close>, then a subject that is \<open>None\<close> raises \<open>TypeError\<close>.
\<close>

definition re_sub_delete :: "string \<Rightarrow> val \<Rightarrow> error + string" where
  "re_sub_delete pattern subject =
     (case compile pattern of
        Inl e \<Rightarrow> Inl e
      | Inr ps \<Rightarrow>
          (case subject of VStr s \<Rightarrow> Inr (delete_matches ps 0 s) | _ \<Rightarrow> Inl TypeError))"

text \<open>
  Removal of a text as the specification words it ("string-removed"): every occurrence
  of the text itself, leftmost first, in one pass.
\<close>

fun starts_with :: "string \<Rightarrow> string \<Rightarrow> bool" where
  "starts_with [] s = True"
| "starts_with (p # ps) [] = False"
| "starts_with (p # ps) (c # cs) = (p = c \<and> starts_with ps cs)"

fun remove_text :: "string \<Rightarrow> nat \<Rightarrow> string \<Rightarrow> string" where
  "remove_text d k [] = []"
| "remove_text d (Suc k) (c # cs) = remove_text d k cs"
| "remove_text d 0 (c # cs) =
     (if d \<noteq> [] \<and> starts_with d (c # cs) then remove_text d (length d - 1) cs
      else c # remove_text d 0 cs)"

fun contains :: "string \<Rightarrow> string \<Rightarrow> bool" where
  "contains sub [] = (sub = [])"
| "contains sub (c # cs) = (starts_with sub (c # cs) \<or> contains sub cs)"

section \<open>The section extractors\<close>

text \<open>
  The markup reader is a collaborator: a list item is given by what the lookups of the
  source find in it. Each field holds the \<open>.text\<close> of the first node with the tag and
  class named, \<open>None\<close> when \<open>find\<close> returns \<open>None\<close>; a link node holds its \<open>href\<close>
  attribute (\<open>None\<close> when the attribute is missing) and, where the source reads it,
  its text.
\<close>

record experience_item =
  exp_title :: "string option"
  exp_subtitle_link :: "(string option \<times> string) option"
  exp_date_range :: "string option"
  exp_duration :: "string option"
  exp_location :: "string option"
  exp_text_less :: "string option"
  exp_text_more :: "string option"

record project_item =
  proj_title :: "string option"
  proj_date_range :: "string option"
  proj_text_less :: "string option"
  proj_text_more :: "string option"
  proj_button :: "string option option"

record certification_item =
  cert_title :: "string option"
  cert_subtitle :: "string option"
  cert_date_range :: "string option"
  cert_button :: "string option option"

definition user_experience :: pydict where
  "user_experience =
     [''role'' \<mapsto> VNone, ''company'' \<mapsto> VNone, ''company_link'' \<mapsto> VNone,
      ''start_date'' \<mapsto> VNone, ''end_date'' \<mapsto> VNone, ''duration'' \<mapsto> VNone,
      ''location'' \<mapsto> VNone, ''description'' \<mapsto> VNone]"

text \<open>
  The body of the loop of \<open>get_experience\<close>, in the order of the source. The title is
  read with \<open>.text\<close> on the result of \<open>find\<close> with no test, the two segments of the
  date range are read with \<open>date_details[0]\<close> and \<open>date_details[1]\<close>, and the duration
  text is the pattern of \<open>re.sub\<close> on the value stored under \<open>end_date\<close>.
\<close>

definition experience_entry :: "experience_item \<Rightarrow> error + pydict" where
  "experience_entry exp =
     (case exp_title exp of
        None \<Rightarrow> Inl AttributeError
      | Some role \<Rightarrow>
          let d1 = user_experience(''role'' \<mapsto> VStr (extract_text_only (Str role)));
              d2 = (case exp_subtitle_link exp of
                      None \<Rightarrow> d1
                    | Some (href, text) \<Rightarrow>
                        d1(''company_link'' \<mapsto> opt_val href,
                           ''company'' \<mapsto> VStr (extract_text_only (Str text))))
          in case (case exp_date_range exp of
                     None \<Rightarrow> Inr d2
                   | Some text \<Rightarrow>
                       (case split_on CHR ''-'' (extract_text_only (Str text)) of
                          s0 # s1 # _ \<Rightarrow> Inr (d2(''start_date'' \<mapsto> VStr s0, ''end_date'' \<mapsto> VStr s1))
                        | _ \<Rightarrow> Inl IndexError)) of
               Inl e \<Rightarrow> Inl e
             | Inr d3 \<Rightarrow>
                 (case (case exp_duration exp of
                          None \<Rightarrow> Inr d3
                        | Some text \<Rightarrow>
                            let duration_details = extract_text_only (Str text);
                                d = d3(''duration'' \<mapsto> VStr duration_details)
                            in (case d ''end_date'' of
                                  None \<Rightarrow> Inl KeyError
                                | Some v \<Rightarrow>
                                    (case re_sub_delete duration_details v of
                                       Inl e \<Rightarrow> Inl e
                                     | Inr end_date \<Rightarrow> Inr (d(''end_date'' \<mapsto> VStr end_date))))) of
                    Inl e \<Rightarrow> Inl e
                  | Inr d4 \<Rightarrow>
                      let d5 = (case exp_location exp of
                                  None \<Rightarrow> d4
                                | Some text \<Rightarrow> d4(''location'' \<mapsto> VStr (extract_text_only (Str text))))
                      in Inr (case exp_text_less exp of
                                None \<Rightarrow> d5
                              | Some truncated \<Rightarrow>
                                  d5(''description'' \<mapsto>
                                       VStr (extract_text_only
                                              (Str (case exp_text_more exp of
                                                      None \<Rightarrow> truncated
                                                    | Some expanded \<Rightarrow> expanded)))))))"

text \<open>A \<open>for\<close> loop that appends one record per item and stops at the first exception.\<close>

fun collect :: "('a \<Rightarrow> error + 'b) \<Rightarrow> 'a list \<Rightarrow> error + 'b list" where
  "collect f [] = Inr []"
| "collect f (x # xs) =
     (case f x of
        Inl e \<Rightarrow> Inl e
      | Inr y \<Rightarrow> (case collect f xs of Inl e \<Rightarrow> Inl e | Inr ys \<Rightarrow> Inr (y # ys)))"

definition get_experience :: "experience_item list \<Rightarrow> error + pydict list" where
  "get_experience experiences = collect experience_entry experiences"

definition user_project :: pydict where
  "user_project =
     [''project_name'' \<mapsto> VNone, ''start_date'' \<mapsto> VNone, ''end_date'' \<mapsto> VNone,
      ''description'' \<mapsto> VNone, ''project_link'' \<mapsto> VNone]"

text \<open>
  The body of the loop of \<open>get_projects\<close>. The normalized title is stored with
  \<open>user_project["role"] = extract_text_only(project_name)\<close>.
\<close>

definition project_entry :: "project_item \<Rightarrow> error + pydict" where
  "project_entry proj =
     (case proj_title proj of
        None \<Rightarrow> Inl AttributeError
      | Some project_name \<Rightarrow>
          let d1 = user_project(''role'' \<mapsto> VStr (extract_text_only (Str project_name)))
          in case (case proj_date_range proj of
                     None \<Rightarrow> Inr d1
                   | Some text \<Rightarrow>
                       (case split_on CHR ''-'' (extract_text_only (Str text)) of
                          [] \<Rightarrow> Inl IndexError
                        | [s0] \<Rightarrow> Inr (d1(''start_date'' \<mapsto> VStr s0))
                        | s0 # s1 # _ \<Rightarrow>
                            Inr (d1(''start_date'' \<mapsto> VStr s0, ''end_date'' \<mapsto> VStr s1)))) of
               Inl e \<Rightarrow> Inl e
             | Inr d2 \<Rightarrow>
                 let d3 = (case proj_text_less proj of
                             None \<Rightarrow> d2
                           | Some truncated \<Rightarrow>
                               d2(''description'' \<mapsto>
                                    VStr (extract_text_only
                                           (Str (case proj_text_more proj of
                                                   None \<Rightarrow> truncated
                                                 | Some expanded \<Rightarrow> expanded)))))
                 in Inr (case proj_button proj of
                           None \<Rightarrow> d3
                         | Some href \<Rightarrow> d3(''project_link'' \<mapsto> opt_val href)))"

definition get_projects :: "project_item list \<Rightarrow> error + pydict list" where
  "get_projects projects = collect project_entry projects"

definition user_certificate :: pydict where
  "user_certificate =
     [''certification'' \<mapsto> VNone, ''certified_by'' \<mapsto> VNone, ''issued_on'' \<mapsto> VNone,
      ''certificate_link'' \<mapsto> VNone]"

definition certification_entry :: "certification_item \<Rightarrow> pydict" where
  "certification_entry certify =
     (let d1 = (case cert_title certify of
                  None \<Rightarrow> user_certificate
                | Some text \<Rightarrow>
                    user_certificate(''certification'' \<mapsto> VStr (extract_text_only (Str text))));
          d2 = (case cert_subtitle certify of
                  None \<Rightarrow> d1
                | Some text \<Rightarrow> d1(''certified_by'' \<mapsto> VStr (extract_text_only (Str text))));
          d3 = (case cert_date_range certify of
                  None \<Rightarrow> d2
                | Some text \<Rightarrow> d2(''issued_on'' \<mapsto> VStr (extract_text_only (Str text))))
      in (case cert_button certify of
            None \<Rightarrow> d3
          | Some href \<Rightarrow> d3(''certificate_link'' \<mapsto> opt_val href)))"

definition get_certification :: "certification_item list \<Rightarrow> pydict list" where
  "get_certification certifications = map certification_entry certifications"

text \<open>\<open>get_about\<close>: the first paragraph, its newlines turned into periods, normalized.\<close>

definition get_about :: "string option \<Rightarrow> string option" where
  "get_about about =
     (case about of
        None \<Rightarrow> None
      | Some text \<Rightarrow>
          Some (extract_text_only
                 (Str (map (\<lambda>c. if c = CHR 0x0A then CHR ''.'' else c) text))))"

section \<open>The basic details of a profile page\<close>

text \<open>
  The page navigator is a collaborator too: an opened profile page is given by what the
  calls of the source return on it. Each of the four texts is the \<open>.text\<close> of
  \<open>find_element\<close> at the fixed path, \<open>None\<close> when the call raises;
  \<open>sections_displayed\<close> is the result of \<open>find_element(...).is_displayed()\<close> on the
  section path (\<open>None\<close> when it raises) and \<open>sections\<close> the result of
  \<open>find_elements\<close> on that path. A section is its \<open>class\<close> attribute (\<open>None\<close> when
  the element has none) and what the four extractors find in its markup.
\<close>

record profile_section =
  sec_class :: "string option"
  sec_p :: "string option"
  sec_experience_items :: "experience_item list"
  sec_personal_projects :: "project_item list"
  sec_section_cards :: "certification_item list"

record user_details =
  h1_text :: "string option"
  h2_text :: "string option"
  h3_text :: "string option"
  company_text :: "string option"
  sections_displayed :: "bool option"
  sections :: "profile_section list"

definition get_basic_details :: "user_details \<Rightarrow> pydict" where
  "get_basic_details details =
     (let basic_data = [''user_name'' \<mapsto> VNone, ''user_description'' \<mapsto> VNone,
                        ''user_location'' \<mapsto> VNone, ''current_company'' \<mapsto> VNone];
          user_name = (case h1_text details of
                         None \<Rightarrow> []
                       | Some text \<Rightarrow> extract_text_only (Str text));
          user_description = (case h2_text details of None \<Rightarrow> [] | Some text \<Rightarrow> text);
          user_location = (case h3_text details of
                             None \<Rightarrow> []
                           | Some text \<Rightarrow>
                               if CHR 0x0A \<in> set text
                               then (case split_on (CHR 0x0A) text of [] \<Rightarrow> [] | s0 # _ \<Rightarrow> s0)
                               else text);
          current_company = (case company_text details of None \<Rightarrow> [] | Some text \<Rightarrow> text)
      in basic_data(''user_name'' \<mapsto> VTuple [user_name],
                    ''user_location'' \<mapsto> VStr user_location,
                    ''user_description'' \<mapsto> VStr user_description,
                    ''current_company'' \<mapsto> VStr current_company))"

section \<open>The crawl\<close>

text \<open>
  The functions are modelled by their bodies, with the names they use taken as bound
  (the module does not import \<open>Options\<close>, which the body of \<open>get_data_from_google\<close>
  calls before it makes the driver). The model of \<open>get_data_from_google\<close> starts at the
  loop: the search URL built before it enters no result. Of the calls on the driver, the
  ones that can fail in the model are the wait for the links, the opening of a link, the
  lookup of the sections, \<open>driver.back()\<close>, the lookup of the \<open>pnnext\<close> control and
  the click on it; \<open>find_elements\<close> and the reads of a section's attributes return.
\<close>

text \<open>
  The values of a profile record (\<open>user_data\<close>) are the values above or a list of the
  records of a section.
\<close>

datatype field = FVal val | FList "pydict list"

type_synonym profile = "string \<rightharpoonup> field"

definition user_data :: profile where
  "user_data =
     [''name'' \<mapsto> FVal VNone, ''role'' \<mapsto> FVal VNone, ''currently_doing'' \<mapsto> FVal VNone,
      ''current_company'' \<mapsto> FVal VNone, ''about'' \<mapsto> FVal VNone,
      ''linkedin_profile'' \<mapsto> FVal VNone, ''location'' \<mapsto> FVal VNone,
      ''experience'' \<mapsto> FVal VNone, ''certifications'' \<mapsto> FVal VNone,
      ''projects'' \<mapsto> FVal VNone]"

text \<open>
  The body of \<open>for section in sections\<close>: the four tests \<open>"..." in section_name\<close> are
  made one after the other on the same section.
\<close>

definition route_section :: "profile_section \<Rightarrow> profile \<Rightarrow> error + profile" where
  "route_section sec u =
     (case sec_class sec of
        None \<Rightarrow> Inl TypeError
      | Some section_name \<Rightarrow>
          let u1 = (if contains ''summary'' section_name
                    then u(''about'' \<mapsto> FVal (opt_val (get_about (sec_p sec)))) else u)
          in case (if contains ''experience'' section_name
                   then (case get_experience (sec_experience_items sec) of
                           Inl e \<Rightarrow> Inl e
                         | Inr experiences \<Rightarrow> Inr (u1(''experience'' \<mapsto> FList experiences)))
                   else Inr u1) of
               Inl e \<Rightarrow> Inl e
             | Inr u2 \<Rightarrow>
                 (case (if contains ''projects'' section_name
                        then (case get_projects (sec_personal_projects sec) of
                                Inl e \<Rightarrow> Inl e
                              | Inr projects \<Rightarrow> Inr (u2(''projects'' \<mapsto> FList projects)))
                        else Inr u2) of
                    Inl e \<Rightarrow> Inl e
                  | Inr u3 \<Rightarrow>
                      Inr (if contains ''certifications'' section_name
                           then u3(''certifications'' \<mapsto>
                                     FList (get_certification (sec_section_cards sec)))
                           else u3)))"

fun route_sections :: "profile_section list \<Rightarrow> profile \<Rightarrow> error + profile" where
  "route_sections [] u = Inr u"
| "route_sections (sec # secs) u =
     (case route_section sec u of Inl e \<Rightarrow> Inl e | Inr u' \<Rightarrow> route_sections secs u')"

text \<open>\<open>d[key]\<close> and \<open>v[0]\<close>, as \<open>basic_data["user_name"][0]\<close> uses them.\<close>

definition subscript :: "pydict \<Rightarrow> string \<Rightarrow> error + val" where
  "subscript d k = (case d k of None \<Rightarrow> Inl KeyError | Some v \<Rightarrow> Inr v)"

fun item0 :: "val \<Rightarrow> error + val" where
  "item0 VNone = Inl TypeError"
| "item0 (VStr []) = Inl IndexError"
| "item0 (VStr (c # cs)) = Inr (VStr [c])"
| "item0 (VTuple []) = Inl IndexError"
| "item0 (VTuple (s # ss)) = Inr (VStr s)"

text \<open>
  A result link is given by what opening it returns: \<open>opened\<close> is \<open>None\<close> when a call
  of the first \<open>try\<close> block raises (reading the \<open>href\<close>, the click, the wait for the
  picture, the lookup of the details), else the \<open>href\<close> read and the details element;
  \<open>back_ok\<close> says whether \<open>driver.back()\<close> returns.
\<close>

record result_link =
  opened :: "(string option \<times> user_details) option"
  back_ok :: bool

text \<open>
  The last assignments of the loop body: the name is \<open>basic_data["user_name"][0]\<close>, the
  three other texts are copied, the role is the one searched for.
\<close>

definition assemble :: "string \<Rightarrow> pydict \<Rightarrow> profile \<Rightarrow> error + profile" where
  "assemble role basic_data u =
     (case subscript basic_data ''user_name'' of
        Inl e \<Rightarrow> Inl e
      | Inr t \<Rightarrow>
          (case item0 t of
             Inl e \<Rightarrow> Inl e
           | Inr name \<Rightarrow>
               (case subscript basic_data ''user_description'' of
                  Inl e \<Rightarrow> Inl e
                | Inr description \<Rightarrow>
                    (case subscript basic_data ''user_location'' of
                       Inl e \<Rightarrow> Inl e
                     | Inr location \<Rightarrow>
                         (case subscript basic_data ''current_company'' of
                            Inl e \<Rightarrow> Inl e
                          | Inr company \<Rightarrow>
                              Inr (u(''name'' \<mapsto> FVal name,
                                     ''currently_doing'' \<mapsto> FVal description,
                                     ''location'' \<mapsto> FVal location,
                                     ''current_company'' \<mapsto> FVal company,
                                     ''role'' \<mapsto> FVal (VStr role))))))))"

text \<open>
  \<open>for link in linkedin_links\<close>, with \<open>total_data\<close> passed along. The two handlers
  that \<open>continue\<close> go to the next link with \<open>total_data\<close> as it is; an exception of
  an extractor, of the section loop or of \<open>driver.back()\<close> is not handled and ends the
  loop.
\<close>

fun visit_links :: "string \<Rightarrow> result_link list \<Rightarrow> profile list \<Rightarrow> error + profile list" where
  "visit_links role [] total_data = Inr total_data"
| "visit_links role (link # rest) total_data =
     (case opened link of
        None \<Rightarrow> visit_links role rest total_data
      | Some (href, details) \<Rightarrow>
          let u0 = user_data(''linkedin_profile'' \<mapsto> FVal (opt_val href));
              basic_data = get_basic_details details
          in (case sections_displayed details of
                None \<Rightarrow> visit_links role rest total_data
              | Some user_has_sections \<Rightarrow>
                  (case (if user_has_sections then route_sections (sections details) u0
                         else Inr u0) of
                     Inl e \<Rightarrow> Inl e
                   | Inr u1 \<Rightarrow>
                       (case assemble role basic_data u1 of
                          Inl e \<Rightarrow> Inl e
                        | Inr u2 \<Rightarrow>
                            if back_ok link then visit_links role rest (total_data @ [u2])
                            else Inl WebDriverException))))"

text \<open>
  A results page is given by what the driver returns on it: \<open>links\<close> is the result of
  the wait for the result links (\<open>None\<close> when the wait raises, as on a timeout),
  \<open>pnnext\<close> the result of \<open>driver.find_element(By.ID, "pnnext").is_displayed()\<close>
  (\<open>None\<close> when the call raises, as it does when no element has that id), and
  \<open>next_click_ok\<close> says whether the second lookup and the click return.
\<close>

record results_page =
  links :: "result_link list option"
  pnnext :: "bool option"
  next_click_ok :: bool

text \<open>
  \<open>while next_exists\<close>. A run is driven by the pages the driver shows, one for each
  turn of the loop, in order. The result is \<open>None\<close> when the loop asks for a page
  after the last one given (the pages do not determine the run, which may go on for
  ever), else the exception that left the loop or the \<open>total_data\<close> at its end.
\<close>

fun crawl :: "string \<Rightarrow> results_page list \<Rightarrow> profile list \<Rightarrow> (error + profile list) option" where
  "crawl role [] total_data = None"
| "crawl role (page # pages) total_data =
     (case links page of
        None \<Rightarrow> Some (Inr total_data)
      | Some linkedin_links \<Rightarrow>
          (case visit_links role linkedin_links total_data of
             Inl e \<Rightarrow> Some (Inl e)
           | Inr total_data' \<Rightarrow>
               (case pnnext page of
                  None \<Rightarrow> Some (Inl NoSuchElementException)
                | Some next_exists \<Rightarrow>
                    if next_exists then
                      (if next_click_ok page then crawl role pages total_data'
                       else Some (Inl WebDriverException))
                    else Some (Inr total_data'))))"

text \<open>
  What a run of \<open>get_data_from_google\<close> leaves behind: the exception that ended it if
  one did, the number of calls of \<open>driver.quit()\<close>, and the records handed to
  \<open>DataFrame(...).to_excel\<close>. The one call of \<open>driver.quit()\<close> is the statement after
  the loop; no \<open>try\<close>/\<open>finally\<close> and no \<open>with\<close> encloses the loop.
\<close>

record run =
  raised :: "error option"
  quit_calls :: nat
  saved :: "profile list option"

definition get_data_from_google :: "string \<Rightarrow> results_page list \<Rightarrow> run option" where
  "get_data_from_google role pages =
     (case crawl role pages [] of
        None \<Rightarrow> None
      | Some (Inl e) \<Rightarrow> Some \<lparr>raised = Some e, quit_calls = 0, saved = None\<rparr>
      | Some (Inr total_data) \<Rightarrow>
          Some \<lparr>raised = None, quit_calls = 1, saved = Some total_data\<rparr>)"

text \<open>Reading one key of the record an extractor step returns.\<close>

definition entry_field :: "error + pydict \<Rightarrow> string \<Rightarrow> error + val" where
  "entry_field r k = (case r of Inl e \<Rightarrow> Inl e | Inr d \<Rightarrow> subscript d k)"

text \<open>\<open>d[key][0]\<close>, as the caller reads the name of the basic details.\<close>

definition subscript0 :: "pydict \<Rightarrow> string \<Rightarrow> error + val" where
  "subscript0 d k = (case subscript d k of Inl e \<Rightarrow> Inl e | Inr t \<Rightarrow> item0 t)"


section \<open>Sample markup\<close>

definition analyst_item :: experience_item where
  "analyst_item =
     \<lparr>exp_title = Some ''Analyst'', exp_subtitle_link = None,
      exp_date_range = Some ''2019-2021'', exp_duration = None, exp_location = None,
      exp_text_less = None, exp_text_more = None\<rparr>"

definition engineer_item :: experience_item where
  "engineer_item =
     \<lparr>exp_title = Some ''Engineer'', exp_subtitle_link = None,
      exp_date_range = Some ''2019'', exp_duration = None, exp_location = None,
      exp_text_less = None, exp_text_more = None\<rparr>"

definition developer_item :: experience_item where
  "developer_item =
     \<lparr>exp_title = Some ''Developer'',
      exp_subtitle_link = Some (Some ''https://www.linkedin.com/company/acme'', ''Acme (India)''),
      exp_date_range = Some ''Jan 2020 - Mar 2022 2 yrs 3 mos'',
      exp_duration = Some ''2 yrs 3 mos'', exp_location = Some ''Pune, India'',
      exp_text_less = Some ''Built the billing'', exp_text_more = Some ''Built the billing service''\<rparr>"

definition architect_item :: experience_item where
  "architect_item =
     \<lparr>exp_title = Some ''Architect'', exp_subtitle_link = None,
      exp_date_range = Some ''Jan 2010 - Present 10+ yrs'',
      exp_duration = Some ''10+ yrs'', exp_location = None,
      exp_text_less = None, exp_text_more = None\<rparr>"

definition ongoing_item :: experience_item where
  "ongoing_item =
     \<lparr>exp_title = Some ''Consultant'', exp_subtitle_link = None,
      exp_date_range = Some ''Present 1 yr'',
      exp_duration = Some ''1 yr'', exp_location = None,
      exp_text_less = None, exp_text_more = None\<rparr>"

definition chat_app :: project_item where
  "chat_app =
     \<lparr>proj_title = Some ''Chat App'', proj_date_range = Some ''2021'',
      proj_text_less = Some ''A chat'', proj_text_more = Some ''A chat application with rooms'',
      proj_button = Some (Some ''https://example.org/chat'')\<rparr>"

definition intern_item :: experience_item where
  "intern_item =
     \<lparr>exp_title = Some ''Intern'', exp_subtitle_link = None,
      exp_date_range = Some ''2018-2019'', exp_duration = None, exp_location = None,
      exp_text_less = Some ''Wrote tests'', exp_text_more = None\<rparr>"

definition blog_project :: project_item where
  "blog_project =
     \<lparr>proj_title = Some ''Blog'', proj_date_range = None,
      proj_text_less = Some ''A static blog'', proj_text_more = None, proj_button = None\<rparr>"

definition blank_details :: user_details where
  "blank_details =
     \<lparr>h1_text = None, h2_text = None, h3_text = None, company_text = None,
      sections_displayed = None, sections = []\<rparr>"

definition nameless_details :: user_details where
  "nameless_details =
     \<lparr>h1_text = None, h2_text = Some ''Data Analyst at Acme'',
      h3_text = Some [CHR ''P'', CHR ''u'', CHR ''n'', CHR ''e'', CHR 0x0A, CHR ''5'', CHR ''0'', CHR ''0'', CHR ''+''],
      company_text = Some ''Acme'', sections_displayed = None, sections = []\<rparr>"

definition experience_section :: profile_section where
  "experience_section =
     \<lparr>sec_class = Some ''core-section-container experience'', sec_p = None,
      sec_experience_items = [analyst_item], sec_personal_projects = [],
      sec_section_cards = []\<rparr>"

definition analyst_details :: user_details where
  "analyst_details =
     \<lparr>h1_text = Some ''Asha Rao'', h2_text = Some ''Data Analyst at Acme'',
      h3_text = Some ''Pune, Maharashtra, India'', company_text = Some ''Acme'',
      sections_displayed = Some True, sections = [experience_section]\<rparr>"

definition analyst_link :: result_link where
  "analyst_link =
     \<lparr>opened = Some (Some ''https://in.linkedin.com/in/asha-rao'', analyst_details),
      back_ok = True\<rparr>"

definition timed_out_link :: result_link where
  "timed_out_link = \<lparr>opened = None, back_ok = True\<rparr>"


definition engineer_link :: result_link where
  "engineer_link =
     \<lparr>opened = Some (Some ''https://in.linkedin.com/in/eng'',
                      analyst_details\<lparr>sections :=
                        [experience_section\<lparr>sec_experience_items := [engineer_item]\<rparr>]\<rparr>),
      back_ok = True\<rparr>"

definition page_without_next :: results_page where
  "page_without_next =
     \<lparr>links = Some [analyst_link, timed_out_link], pnnext = None, next_click_ok = False\<rparr>"

definition page_hidden_next :: results_page where
  "page_hidden_next =
     \<lparr>links = Some [analyst_link, timed_out_link], pnnext = Some False, next_click_ok = False\<rparr>"


definition engineer_page :: results_page where
  "engineer_page =
     \<lparr>links = Some [engineer_link], pnnext = Some False, next_click_ok = False\<rparr>"

definition page_timed_out :: results_page where
  "page_timed_out = \<lparr>links = None, pnnext = None, next_click_ok = False\<rparr>"

definition volunteer_item :: experience_item where
  "volunteer_item =
     \<lparr>exp_title = Some ''Volunteer'', exp_subtitle_link = None,
      exp_date_range = None, exp_duration = None, exp_location = None,
      exp_text_less = None, exp_text_more = Some ''Taught children''\<rparr>"

definition untitled_project :: project_item where
  "untitled_project =
     \<lparr>proj_title = Some ''Notes'', proj_date_range = None,
      proj_text_less = None, proj_text_more = None, proj_button = None\<rparr>"

definition blank_certificate :: certification_item where
  "blank_certificate =
     \<lparr>cert_title = None, cert_subtitle = None, cert_date_range = None, cert_button = None\<rparr>"




section \<open>Properties of the normalizer\<close>

lemma strip_decompose:
  "\<exists>pre suf. s = pre @ strip s @ suf \<and> (\<forall>c\<in>set pre. is_space c) \<and> (\<forall>c\<in>set suf. is_space c)"
proof -
  define t where "t = rev s"
  define u where "u = rev (dropWhile is_space t)"
  have s: "s = u @ rev (takeWhile is_space t)"
    unfolding u_def t_def
    by (metis rev_append rev_rev_ident takeWhile_dropWhile_id)
  have u: "u = takeWhile is_space u @ strip s"
    unfolding strip_def u_def t_def by simp
  have "s = takeWhile is_space u @ strip s @ rev (takeWhile is_space t)"
    using s u by (metis append.assoc)
  moreover have "\<forall>c\<in>set (takeWhile is_space u). is_space c"
    by (meson set_takeWhileD)
  moreover have "\<forall>c\<in>set (rev (takeWhile is_space t)). is_space c"
    by (metis set_rev set_takeWhileD)
  ultimately show ?thesis by blast
qed

lemma strip_subset: "set (strip s) \<subseteq> set s"
  unfolding strip_def
  by (metis (no_types, opaque_lifting) set_dropWhileD set_rev subsetI)

lemma strip_ends:
  "strip s = [] \<or> (\<not> is_space (hd (strip s)) \<and> \<not> is_space (last (strip s)))"
proof (cases "strip s = []")
  case True
  then show ?thesis by simp
next
  case False
  have h: "\<not> is_space (hd (strip s))"
    using False unfolding strip_def by (simp add: hd_dropWhile)
  define r where "r = dropWhile is_space (rev s)"
  have rne: "r \<noteq> []"
    using False unfolding strip_def r_def
    by (cases "dropWhile is_space (rev s)") auto
  then have "\<not> is_space (hd r)"
    unfolding r_def by (simp add: hd_dropWhile)
  then have l: "\<not> is_space (last (rev r))"
    using rne by (simp add: last_rev)
  have "strip s = dropWhile is_space (rev r)"
    unfolding strip_def r_def by simp
  moreover have "last (dropWhile is_space (rev r)) = last (rev r)"
    using False calculation
    by (metis append_Nil2 last_appendR takeWhile_dropWhile_id)
  ultimately show ?thesis using h l by simp
qed

lemma strip_fixed:
  assumes "s = [] \<or> (\<not> is_space (hd s) \<and> \<not> is_space (last s))"
  shows "strip s = s"
proof (cases "s = []")
  case True
  then show ?thesis by (simp add: strip_def)
next
  case False
  then have a: "\<not> is_space (hd s)" and b: "\<not> is_space (last s)"
    using assms by auto
  have "dropWhile is_space (rev s) = rev s"
    using False b by (cases "rev s") (auto simp: last_rev hd_rev)
  then show ?thesis
    using False a unfolding strip_def by (cases s) auto
qed

lemma strip_idem: "strip (strip s) = strip s"
  using strip_ends strip_fixed by blast

lemma kept_output: "set (extract_text_only w) \<subseteq> {c. kept c}"
  unfolding extract_text_only_def using strip_subset by fastforce

text \<open>
  C4. The normalizer is idempotent: normalizing the result of normalizing a string
  returns it unchanged, for every string (the empty one and the ones made of
  whitespace included).
\<close>

theorem extract_text_only_idempotent:
  "extract_text_only (Str (extract_text_only (Str s))) = extract_text_only (Str s)"
proof -
  define r where "r = extract_text_only (Str s)"
  have "filter kept r = r"
    using kept_output [of "Str s"] unfolding r_def by (auto simp: filter_id_conv)
  moreover have "strip r = r"
    unfolding r_def extract_text_only_def by (rule strip_idem)
  ultimately show ?thesis
    unfolding r_def [symmetric] by (simp add: extract_text_only_def)
qed

lemma kept_space: "kept c \<Longrightarrow> is_space c \<Longrightarrow> c = CHR '' ''"
  unfolding kept_def is_word_def is_alnum_def is_space_def code_point_def Let_def
  by auto

text \<open>
  C3, against the source. The claim's allowed set is not the one of the pattern: the
  underscore is a \<open>\w\<close> character and stays in the output, and of the whitespace
  characters only the space is in the class, so a tab between two letters is removed.
\<close>

theorem extract_text_only_spec_counterexample:
  "extract_text_only (Str ''a_b'') = ''a_b'' \<and> \<not> spec_allowed (CHR ''_'') \<and>
   spec_allowed (CHR 0x09) \<and>
   extract_text_only (Str [CHR ''a'', CHR 0x09, CHR ''b'']) = ''ab'' \<and>
   spec_normalize (Str [CHR ''a'', CHR 0x09, CHR ''b'']) = [CHR ''a'', CHR 0x09, CHR ''b'']"
  by code_simp

text \<open>
  C3, amended. For a string or a sequence of strings (joined with one space), the output
  keeps, in order, exactly the characters that are word characters (alphanumeric or
  underscore), spaces, periods, hyphens or plus signs, minus a run of spaces at each end:
  every character of the output is in that set, the output neither starts nor ends with
  whitespace, and the kept characters of the input are the output between two runs of
  spaces.
\<close>

theorem extract_text_only_kept:
  "(\<forall>c\<in>set (extract_text_only w). kept c) \<and>
   (extract_text_only w = [] \<or>
      (\<not> is_space (hd (extract_text_only w)) \<and> \<not> is_space (last (extract_text_only w)))) \<and>
   (\<exists>pre suf. filter kept (joined w) = pre @ extract_text_only w @ suf \<and>
      (\<forall>c\<in>set pre. c = CHR '' '') \<and> (\<forall>c\<in>set suf. c = CHR '' ''))"
proof (intro conjI)
  show "\<forall>c\<in>set (extract_text_only w). kept c"
    using kept_output [of w] by blast
  show "extract_text_only w = [] \<or>
      (\<not> is_space (hd (extract_text_only w)) \<and> \<not> is_space (last (extract_text_only w)))"
    unfolding extract_text_only_def by (rule strip_ends)
  define k where "k = filter kept (joined w)"
  obtain pre suf where d: "k = pre @ strip k @ suf"
    and p: "\<forall>c\<in>set pre. is_space c" and q: "\<forall>c\<in>set suf. is_space c"
    using strip_decompose [of k] by blast
  have all: "\<forall>c\<in>set k. kept c"
    unfolding k_def by simp
  have "set pre \<subseteq> set k" "set suf \<subseteq> set k"
    using d by (metis set_append Un_upper1, metis set_append Un_upper2 le_supI2 order_refl)
  then have "\<forall>c\<in>set pre. c = CHR '' ''" "\<forall>c\<in>set suf. c = CHR '' ''"
    using all p q kept_space by blast+
  then show "\<exists>pre suf. filter kept (joined w) = pre @ extract_text_only w @ suf \<and>
      (\<forall>c\<in>set pre. c = CHR '' '') \<and> (\<forall>c\<in>set suf. c = CHR '' '')"
    using d unfolding k_def extract_text_only_def by blast
qed

theorem extract_text_only_kept_witness:
  "extract_text_only (Seq [''C++ (dev)'', '' x_y! '']) = ''C++ dev  x_y'' \<and>
   list_all kept (extract_text_only (Seq [''C++ (dev)'', '' x_y! ''])) \<and>
   (\<exists>pre suf. filter kept (joined (Seq [''C++ (dev)'', '' x_y! ''])) =
        pre @ extract_text_only (Seq [''C++ (dev)'', '' x_y! '']) @ suf \<and>
      (\<forall>c\<in>set pre. c = CHR '' '') \<and> (\<forall>c\<in>set suf. c = CHR '' ''))"
proof -
  have "extract_text_only (Seq [''C++ (dev)'', '' x_y! '']) = ''C++ dev  x_y''"
    by code_simp
  then show ?thesis
    using extract_text_only_kept [of "Seq [''C++ (dev)'', '' x_y! '']"]
    unfolding list_all_iff by blast
qed

section \<open>Properties of the section extractors\<close>

lemma subscript_upd [simp]:
  "subscript (d(k \<mapsto> v)) k' = (if k' = k then Inr v else subscript d k')"
  by (simp add: subscript_def)

lemma split_on_no_sep: "sep \<notin> set s \<Longrightarrow> split_on sep s = [s]"
  by (induction s) auto

lemma split_on_nonempty: "split_on sep s \<noteq> []"
  by (induction s) (auto split: list.splits)

lemma split_on_sep: "sep \<in> set s \<Longrightarrow> \<exists>s0 s1 r. split_on sep s = s0 # s1 # r"
proof (induction s)
  case Nil
  then show ?case by simp
next
  case (Cons c cs)
  show ?case
  proof (cases "c = sep")
    case True
    then show ?thesis
      using split_on_nonempty [of sep cs] by (cases "split_on sep cs") auto
  next
    case False
    then have "sep \<in> set cs" using Cons.prems by simp
    then obtain s0 s1 r where "split_on sep cs = s0 # s1 # r"
      using Cons.IH by blast
    then show ?thesis using False by simp
  qed
qed

lemma collect_fails: "x \<in> set xs \<Longrightarrow> f x = Inl e \<Longrightarrow> \<exists>e'. collect f xs = Inl e'"
  by (induction xs) (auto split: sum.splits)

lemma collect_length: "collect f xs = Inr ys \<Longrightarrow> length ys = length xs"
  by (induction xs arbitrary: ys) (auto split: sum.splits)

lemma collect_nth: "collect f xs = Inr ys \<Longrightarrow> i < length xs \<Longrightarrow> f (xs ! i) = Inr (ys ! i)"
proof (induction xs arbitrary: ys i)
  case Nil
  then show ?case by simp
next
  case (Cons x xs)
  then show ?case by (cases i) (auto split: sum.splits)
qed

lemma experience_entry_no_hyphen:
  assumes "exp_date_range exp = Some t" "CHR ''-'' \<notin> set (extract_text_only (Str t))"
  shows "\<exists>e. experience_entry exp = Inl e"
  using assms split_on_no_sep [of "CHR ''-''" "extract_text_only (Str t)"]
  by (cases "exp_title exp") (simp_all add: experience_entry_def Let_def)

text \<open>A pattern with no period and no plus sign is matched as the text it is.\<close>

lemma compile_acc_literal:
  "CHR ''+'' \<notin> set p \<Longrightarrow> CHR ''.'' \<notin> set p \<Longrightarrow>
   compile_acc acc p = Inr (rev acc @ map (\<lambda>c. (Lit c, Once)) p)"
  by (induction p arbitrary: acc) (auto simp: atom_of_def)

lemma match_at_literal:
  "match_at (map (\<lambda>c. (Lit c, Once)) p) s = (if starts_with p s then Some (length p) else None)"
proof (induction p arbitrary: s)
  case Nil
  then show ?case by simp
next
  case (Cons a p)
  then show ?case by (cases s) auto
qed

lemma delete_matches_literal:
  "delete_matches (map (\<lambda>c. (Lit c, Once)) p) k s = remove_text p k s"
proof -
  define ps where "ps = map (\<lambda>c. (Lit c, Once)) p"
  have m: "match_at ps s' = (if starts_with p s' then Some (length p) else None)" for s'
    unfolding ps_def by (rule match_at_literal)
  have "delete_matches ps k s = remove_text p k s"
  proof (induction s arbitrary: k)
    case Nil
    then show ?case by simp
  next
    case (Cons c cs)
    show ?case
    proof (cases k)
      case (Suc n)
      then show ?thesis using Cons.IH by simp
    next
      case 0
      show ?thesis
      proof (cases "p \<noteq> [] \<and> starts_with p (c # cs)")
        case True
        then obtain n where n: "length p = Suc n"
          by (cases p) auto
        then show ?thesis
          using True 0 Cons.IH [of n] by (simp add: m del: starts_with.simps)
      next
        case False
        then show ?thesis
          using 0 Cons.IH [of 0] by (auto simp: m simp del: starts_with.simps)
      qed
    qed
  qed
  then show ?thesis unfolding ps_def .
qed

lemma re_sub_delete_literal:
  "CHR ''+'' \<notin> set p \<Longrightarrow> CHR ''.'' \<notin> set p \<Longrightarrow>
   re_sub_delete p (VStr s) = Inr (remove_text p 0 s)"
  by (simp add: re_sub_delete_def compile_def compile_acc_literal delete_matches_literal)

text \<open>
  C10. In \<open>get_experience\<close> the two segments of the split date range are read with no
  test of the length: an item whose normalized date range has no hyphen makes the
  extraction of the whole section fail (with \<open>IndexError\<close> when the item has its title),
  and with a hyphen (and no duration span) the start and end dates are the first and the
  second segment. \<open>get_projects\<close> tests the length: with no hyphen the start date is the
  whole text and the end date stays \<open>None\<close>.
\<close>

theorem date_range_without_hyphen:
  "(exp \<in> set experiences \<and> exp_date_range exp = Some t \<and>
      CHR ''-'' \<notin> set (extract_text_only (Str t)) \<longrightarrow>
      (\<exists>e. get_experience experiences = Inl e)) \<and>
   (exp_title exp = Some r \<and> exp_date_range exp = Some t \<and>
      CHR ''-'' \<notin> set (extract_text_only (Str t)) \<longrightarrow>
      entry_field (experience_entry exp) ''end_date'' = Inl IndexError) \<and>
   (exp_title exp2 = Some r2 \<and> exp_date_range exp2 = Some t2 \<and> exp_duration exp2 = None \<and>
      CHR ''-'' \<in> set (extract_text_only (Str t2)) \<longrightarrow>
      (\<exists>s0 s1 rest. split_on CHR ''-'' (extract_text_only (Str t2)) = s0 # s1 # rest \<and>
         entry_field (experience_entry exp2) ''start_date'' = Inr (VStr s0) \<and>
         entry_field (experience_entry exp2) ''end_date'' = Inr (VStr s1))) \<and>
   (proj_title proj = Some n \<and> proj_date_range proj = Some t' \<and>
      CHR ''-'' \<notin> set (extract_text_only (Str t')) \<longrightarrow>
      entry_field (project_entry proj) ''start_date'' = Inr (VStr (extract_text_only (Str t'))) \<and>
      entry_field (project_entry proj) ''end_date'' = Inr VNone)"
proof (intro conjI impI)
  assume a: "exp \<in> set experiences \<and> exp_date_range exp = Some t \<and>
      CHR ''-'' \<notin> set (extract_text_only (Str t))"
  then obtain e where "experience_entry exp = Inl e"
    using experience_entry_no_hyphen by blast
  then show "\<exists>e. get_experience experiences = Inl e"
    using a collect_fails unfolding get_experience_def by fast
next
  assume "exp_title exp = Some r \<and> exp_date_range exp = Some t \<and>
      CHR ''-'' \<notin> set (extract_text_only (Str t))"
  then show "entry_field (experience_entry exp) ''end_date'' = Inl IndexError"
    using split_on_no_sep [of "CHR ''-''" "extract_text_only (Str t)"]
    by (simp add: experience_entry_def entry_field_def Let_def)
next
  assume a: "exp_title exp2 = Some r2 \<and> exp_date_range exp2 = Some t2 \<and>
      exp_duration exp2 = None \<and> CHR ''-'' \<in> set (extract_text_only (Str t2))"
  then obtain s0 s1 rest
    where s: "split_on CHR ''-'' (extract_text_only (Str t2)) = s0 # s1 # rest"
    using split_on_sep by blast
  have "entry_field (experience_entry exp2) ''start_date'' = Inr (VStr s0) \<and>
        entry_field (experience_entry exp2) ''end_date'' = Inr (VStr s1)"
    using a s
    by (simp add: experience_entry_def entry_field_def Let_def user_experience_def
        split: option.splits prod.splits)
  then show "\<exists>s0 s1 rest. split_on CHR ''-'' (extract_text_only (Str t2)) = s0 # s1 # rest \<and>
         entry_field (experience_entry exp2) ''start_date'' = Inr (VStr s0) \<and>
         entry_field (experience_entry exp2) ''end_date'' = Inr (VStr s1)"
    using s by blast
next
  assume a: "proj_title proj = Some n \<and> proj_date_range proj = Some t' \<and>
      CHR ''-'' \<notin> set (extract_text_only (Str t'))"
  then have s: "split_on CHR ''-'' (extract_text_only (Str t')) = [extract_text_only (Str t')]"
    using split_on_no_sep by blast
  show "entry_field (project_entry proj) ''start_date'' = Inr (VStr (extract_text_only (Str t')))"
    using a s
    by (simp add: project_entry_def entry_field_def Let_def user_project_def
        split: option.splits)
  show "entry_field (project_entry proj) ''end_date'' = Inr VNone"
    using a s
    by (simp add: project_entry_def entry_field_def Let_def user_project_def
        split: option.splits)
qed

theorem date_range_without_hyphen_witness:
  "(\<exists>e. get_experience [analyst_item, engineer_item] = Inl e) \<and>
   entry_field (experience_entry engineer_item) ''end_date'' = Inl IndexError \<and>
   (\<exists>s0 s1 rest. split_on CHR ''-'' (extract_text_only (Str ''2019-2021'')) = s0 # s1 # rest \<and>
      entry_field (experience_entry analyst_item) ''start_date'' = Inr (VStr s0) \<and>
      entry_field (experience_entry analyst_item) ''end_date'' = Inr (VStr s1)) \<and>
   entry_field (experience_entry analyst_item) ''end_date'' = Inr (VStr ''2021'') \<and>
   entry_field (project_entry chat_app) ''start_date'' = Inr (VStr (extract_text_only (Str ''2021''))) \<and>
   entry_field (project_entry chat_app) ''end_date'' = Inr VNone"
proof -
  have h1: "engineer_item \<in> set [analyst_item, engineer_item] \<and>
      exp_date_range engineer_item = Some ''2019'' \<and>
      CHR ''-'' \<notin> set (extract_text_only (Str ''2019''))"
    by code_simp
  have h2: "exp_title engineer_item = Some ''Engineer'' \<and>
      exp_date_range engineer_item = Some ''2019'' \<and>
      CHR ''-'' \<notin> set (extract_text_only (Str ''2019''))"
    by code_simp
  have h3: "exp_title analyst_item = Some ''Analyst'' \<and>
      exp_date_range analyst_item = Some ''2019-2021'' \<and> exp_duration analyst_item = None \<and>
      CHR ''-'' \<in> set (extract_text_only (Str ''2019-2021''))"
    by code_simp
  have h4: "proj_title chat_app = Some ''Chat App'' \<and> proj_date_range chat_app = Some ''2021'' \<and>
      CHR ''-'' \<notin> set (extract_text_only (Str ''2021''))"
    by code_simp
  have h5: "entry_field (experience_entry analyst_item) ''end_date'' = Inr (VStr ''2021'')"
    by code_simp
  show ?thesis
    using date_range_without_hyphen [of engineer_item "[analyst_item, engineer_item]" "''2019''"
        "''Engineer''" analyst_item "''Analyst''" "''2019-2021''" chat_app "''Chat App''" "''2021''"]
      h1 h2 h3 h4 h5
    by blast
qed

text \<open>
  C5, against the source. The duration text is the pattern of \<open>re.sub\<close>, not a text to
  remove: for the duration \<open>10+ yrs\<close> the pattern matches \<open>10 yrs\<close> and not the text
  itself, so the end date keeps the duration text, where removing the text gives
  \<open> Present \<close>. And an item with both spans whose date range has no hyphen is not
  extracted at all.
\<close>

theorem end_date_duration_counterexample:
  "exp_date_range architect_item = Some ''Jan 2010 - Present 10+ yrs'' \<and>
   exp_duration architect_item = Some ''10+ yrs'' \<and>
   entry_field (experience_entry architect_item) ''end_date'' = Inr (VStr '' Present 10+ yrs'') \<and>
   contains ''10+ yrs'' '' Present 10+ yrs'' \<and>
   remove_text ''10+ yrs'' 0 '' Present 10+ yrs'' = '' Present '' \<and>
   exp_date_range ongoing_item = Some ''Present 1 yr'' \<and>
   exp_duration ongoing_item = Some ''1 yr'' \<and>
   entry_field (experience_entry ongoing_item) ''end_date'' = Inl IndexError"
  by code_simp

text \<open>
  C5, amended. For every experience item that has its title, a date-range span whose
  normalized text contains a hyphen, and a duration span whose normalized text contains
  neither a period nor a plus sign, the extraction of the item succeeds, the duration is
  the normalized duration text, and the end date is the second segment of the
  hyphen-split date range with the occurrences of the duration text removed, leftmost
  first, in one pass.
\<close>

theorem end_date_without_duration:
  assumes "exp_title exp = Some r" and "exp_date_range exp = Some t"
    and "exp_duration exp = Some u"
    and "CHR ''-'' \<in> set (extract_text_only (Str t))"
    and "CHR ''.'' \<notin> set (extract_text_only (Str u))"
    and "CHR ''+'' \<notin> set (extract_text_only (Str u))"
  shows "\<exists>s0 s1 rest. split_on CHR ''-'' (extract_text_only (Str t)) = s0 # s1 # rest \<and>
           entry_field (experience_entry exp) ''end_date'' =
             Inr (VStr (remove_text (extract_text_only (Str u)) 0 s1)) \<and>
           entry_field (experience_entry exp) ''duration'' =
             Inr (VStr (extract_text_only (Str u)))"
proof -
  obtain s0 s1 rest where s: "split_on CHR ''-'' (extract_text_only (Str t)) = s0 # s1 # rest"
    using assms(4) split_on_sep by blast
  have r: "re_sub_delete (extract_text_only (Str u)) (VStr s1) =
             Inr (remove_text (extract_text_only (Str u)) 0 s1)"
    using assms(5,6) by (simp add: re_sub_delete_literal)
  have "entry_field (experience_entry exp) ''end_date'' =
          Inr (VStr (remove_text (extract_text_only (Str u)) 0 s1))"
    using assms(1-3) s r
    by (simp add: experience_entry_def entry_field_def Let_def user_experience_def
        split: option.splits prod.splits)
  moreover have "entry_field (experience_entry exp) ''duration'' =
          Inr (VStr (extract_text_only (Str u)))"
    using assms(1-3) s r
    by (simp add: experience_entry_def entry_field_def Let_def user_experience_def
        split: option.splits prod.splits)
  ultimately show ?thesis using s by blast
qed

theorem end_date_without_duration_witness:
  "(\<exists>s0 s1 rest.
      split_on CHR ''-'' (extract_text_only (Str ''Jan 2020 - Mar 2022 2 yrs 3 mos'')) =
        s0 # s1 # rest \<and>
      entry_field (experience_entry developer_item) ''end_date'' =
        Inr (VStr (remove_text (extract_text_only (Str ''2 yrs 3 mos'')) 0 s1)) \<and>
      entry_field (experience_entry developer_item) ''duration'' =
        Inr (VStr (extract_text_only (Str ''2 yrs 3 mos'')))) \<and>
   entry_field (experience_entry developer_item) ''end_date'' = Inr (VStr '' Mar 2022 '')"
proof -
  have h1: "exp_title developer_item = Some ''Developer''"
    and h2: "exp_date_range developer_item = Some ''Jan 2020 - Mar 2022 2 yrs 3 mos''"
    and h3: "exp_duration developer_item = Some ''2 yrs 3 mos''"
    by (simp_all add: developer_item_def)
  have h4: "CHR ''-'' \<in> set (extract_text_only (Str ''Jan 2020 - Mar 2022 2 yrs 3 mos''))"
    by code_simp
  have h5: "CHR ''.'' \<notin> set (extract_text_only (Str ''2 yrs 3 mos''))"
    by code_simp
  have h6: "CHR ''+'' \<notin> set (extract_text_only (Str ''2 yrs 3 mos''))"
    by code_simp
  have h7: "entry_field (experience_entry developer_item) ''end_date'' = Inr (VStr '' Mar 2022 '')"
    by code_simp
  show ?thesis
    using end_date_without_duration [OF h1 h2 h3 h4 h5 h6] h7 by blast
qed

lemma experience_entry_description:
  assumes "experience_entry exp = Inr d" and "exp_text_less exp = Some l"
  shows "subscript d ''description'' =
           Inr (VStr (extract_text_only (Str (case exp_text_more exp of None \<Rightarrow> l | Some m \<Rightarrow> m))))"
  using assms
  by (auto simp: experience_entry_def Let_def split: option.splits sum.splits)

lemma project_entry_description:
  assumes "project_entry proj = Inr d" and "proj_text_less proj = Some l"
  shows "subscript d ''description'' =
           Inr (VStr (extract_text_only (Str (case proj_text_more proj of None \<Rightarrow> l | Some m \<Rightarrow> m))))"
  using assms
  by (auto simp: project_entry_def Let_def split: option.splits sum.splits)

text \<open>
  C9. In the records \<open>get_experience\<close> and \<open>get_projects\<close> return, an item
  that has both a collapsed and an expanded description node has the normalized text of
  the expanded node as its description; the text of the collapsed node is the
  description when there is no expanded node.
\<close>

theorem expanded_description_preferred:
  "(get_experience experiences = Inr ds \<and> i < length experiences \<and>
      exp_text_less (experiences ! i) = Some l \<and> exp_text_more (experiences ! i) = Some m \<longrightarrow>
      subscript (ds ! i) ''description'' = Inr (VStr (extract_text_only (Str m)))) \<and>
   (get_experience experiences = Inr ds \<and> j < length experiences \<and>
      exp_text_less (experiences ! j) = Some l' \<and> exp_text_more (experiences ! j) = None \<longrightarrow>
      subscript (ds ! j) ''description'' = Inr (VStr (extract_text_only (Str l')))) \<and>
   (get_projects projects = Inr ps \<and> k < length projects \<and>
      proj_text_less (projects ! k) = Some pl \<and> proj_text_more (projects ! k) = Some pm \<longrightarrow>
      subscript (ps ! k) ''description'' = Inr (VStr (extract_text_only (Str pm)))) \<and>
   (get_projects projects = Inr ps \<and> n < length projects \<and>
      proj_text_less (projects ! n) = Some pl' \<and> proj_text_more (projects ! n) = None \<longrightarrow>
      subscript (ps ! n) ''description'' = Inr (VStr (extract_text_only (Str pl'))))"
  using collect_nth [of experience_entry experiences ds]
    collect_nth [of project_entry projects ps]
    experience_entry_description project_entry_description
  unfolding get_experience_def get_projects_def
  by (intro conjI impI) fastforce+

theorem expanded_description_preferred_witness:
  "\<exists>ds ps. get_experience [developer_item, intern_item] = Inr ds \<and>
     get_projects [chat_app, blog_project] = Inr ps \<and>
     subscript (ds ! 0) ''description'' = Inr (VStr ''Built the billing service'') \<and>
     subscript (ds ! 1) ''description'' = Inr (VStr ''Wrote tests'') \<and>
     subscript (ps ! 0) ''description'' = Inr (VStr ''A chat application with rooms'') \<and>
     subscript (ps ! 1) ''description'' = Inr (VStr ''A static blog'')"
proof -
  have "\<not> isl (get_experience [developer_item, intern_item])"
    by code_simp
  then obtain ds where ds: "get_experience [developer_item, intern_item] = Inr ds"
    by (cases "get_experience [developer_item, intern_item]") auto
  have "\<not> isl (get_projects [chat_app, blog_project])"
    by code_simp
  then obtain ps where ps: "get_projects [chat_app, blog_project] = Inr ps"
    by (cases "get_projects [chat_app, blog_project]") auto
  have h: "exp_text_less ([developer_item, intern_item] ! 0) = Some ''Built the billing''"
    "exp_text_more ([developer_item, intern_item] ! 0) = Some ''Built the billing service''"
    "exp_text_less ([developer_item, intern_item] ! 1) = Some ''Wrote tests''"
    "exp_text_more ([developer_item, intern_item] ! 1) = None"
    "proj_text_less ([chat_app, blog_project] ! 0) = Some ''A chat''"
    "proj_text_more ([chat_app, blog_project] ! 0) = Some ''A chat application with rooms''"
    "proj_text_less ([chat_app, blog_project] ! 1) = Some ''A static blog''"
    "proj_text_more ([chat_app, blog_project] ! 1) = None"
    by (simp_all add: developer_item_def intern_item_def chat_app_def blog_project_def)
  have n: "extract_text_only (Str ''Built the billing service'') = ''Built the billing service''"
    "extract_text_only (Str ''Wrote tests'') = ''Wrote tests''"
    "extract_text_only (Str ''A chat application with rooms'') = ''A chat application with rooms''"
    "extract_text_only (Str ''A static blog'') = ''A static blog''"
    by code_simp+
  have "subscript (ds ! 0) ''description'' = Inr (VStr ''Built the billing service'') \<and>
     subscript (ds ! 1) ''description'' = Inr (VStr ''Wrote tests'') \<and>
     subscript (ps ! 0) ''description'' = Inr (VStr ''A chat application with rooms'') \<and>
     subscript (ps ! 1) ''description'' = Inr (VStr ''A static blog'')"
    using expanded_description_preferred [of "[developer_item, intern_item]" ds 0
        "''Built the billing''" "''Built the billing service''" 1 "''Wrote tests''"
        "[chat_app, blog_project]" ps 0 "''A chat''" "''A chat application with rooms''" 1
        "''A static blog''"] ds ps h n
    by simp
  then show ?thesis using ds ps by blast
qed

text \<open>
  C8, on the source. The loop of \<open>get_projects\<close> stores the normalized title under
  the key \<open>role\<close>; the key \<open>project_name\<close> that the record declares keeps its
  initial \<open>None\<close>.
\<close>

theorem project_name_left_unset:
  "entry_field (project_entry chat_app) ''project_name'' = Inr VNone \<and>
   entry_field (project_entry chat_app) ''role'' = Inr (VStr ''Chat App'')"
  by code_simp

section \<open>Properties of the basic details\<close>

lemma hd_split_on: "\<exists>r. split_on sep s = takeWhile (\<lambda>c. c \<noteq> sep) s # r"
  by (induction s) (auto split: list.splits)

lemma re_sub_delete_None [simp]: "re_sub_delete p VNone \<noteq> Inr s"
  by (simp add: re_sub_delete_def split: sum.split)

lemma experience_entry_optional_case:
  "case experience_entry exp of
     Inl e \<Rightarrow> True
   | Inr d \<Rightarrow>
       subscript d ''company'' =
         Inr (opt_val (map_option (\<lambda>(h, t). extract_text_only (Str t)) (exp_subtitle_link exp))) \<and>
       (exp_subtitle_link exp = None \<longrightarrow> subscript d ''company_link'' = Inr VNone) \<and>
       (exp_date_range exp = None \<longrightarrow>
          subscript d ''start_date'' = Inr VNone \<and> subscript d ''end_date'' = Inr VNone) \<and>
       subscript d ''duration'' =
         Inr (opt_val (map_option (\<lambda>t. extract_text_only (Str t)) (exp_duration exp))) \<and>
       subscript d ''location'' =
         Inr (opt_val (map_option (\<lambda>t. extract_text_only (Str t)) (exp_location exp))) \<and>
       (exp_text_less exp = None \<longrightarrow> subscript d ''description'' = Inr VNone)"
  by (cases "exp_title exp"; cases "exp_subtitle_link exp"; cases "exp_date_range exp";
      cases "exp_duration exp"; cases "exp_location exp"; cases "exp_text_less exp";
      simp add: experience_entry_def Let_def user_experience_def
        split: sum.split list.split prod.split)

lemma project_entry_optional_case:
  "case project_entry proj of
     Inl e \<Rightarrow> True
   | Inr d \<Rightarrow>
       (proj_date_range proj = None \<longrightarrow>
          subscript d ''start_date'' = Inr VNone \<and> subscript d ''end_date'' = Inr VNone) \<and>
       (proj_text_less proj = None \<longrightarrow> subscript d ''description'' = Inr VNone) \<and>
       (proj_button proj = None \<longrightarrow> subscript d ''project_link'' = Inr VNone)"
  by (cases "proj_title proj"; cases "proj_date_range proj"; cases "proj_text_less proj";
      cases "proj_button proj";
      simp add: project_entry_def Let_def user_project_def split: list.split)

lemma certification_entry_fields:
  "subscript (certification_entry c) ''certification'' =
     Inr (opt_val (map_option (\<lambda>t. extract_text_only (Str t)) (cert_title c)))"
  "subscript (certification_entry c) ''certified_by'' =
     Inr (opt_val (map_option (\<lambda>t. extract_text_only (Str t)) (cert_subtitle c)))"
  "subscript (certification_entry c) ''issued_on'' =
     Inr (opt_val (map_option (\<lambda>t. extract_text_only (Str t)) (cert_date_range c)))"
  "subscript (certification_entry c) ''certificate_link'' =
     Inr (case cert_button c of None \<Rightarrow> VNone | Some href \<Rightarrow> opt_val href)"
  by (cases "cert_title c"; cases "cert_subtitle c"; cases "cert_date_range c";
      cases "cert_button c";
      simp add: certification_entry_def user_certificate_def Let_def)+


text \<open>
  C6, against the source. When the lookup of a field fails, the handler of
  \<open>get_basic_details\<close> stores the empty string, not \<open>None\<close>: with no name heading
  the name the caller reads is the empty string while the location is still extracted,
  and with all four lookups failing all four fields are empty strings.
\<close>

theorem basic_details_empty_counterexample:
  "h1_text nameless_details = None \<and>
   subscript0 (get_basic_details nameless_details) ''user_name'' = Inr (VStr '''') \<and>
   subscript (get_basic_details nameless_details) ''user_location'' = Inr (VStr ''Pune'') \<and>
   h2_text blank_details = None \<and> h3_text blank_details = None \<and>
   company_text blank_details = None \<and>
   subscript0 (get_basic_details blank_details) ''user_name'' = Inr (VStr '''') \<and>
   subscript (get_basic_details blank_details) ''user_description'' = Inr (VStr '''') \<and>
   subscript (get_basic_details blank_details) ''user_location'' = Inr (VStr '''') \<and>
   subscript (get_basic_details blank_details) ''current_company'' = Inr (VStr '''') \<and>
   VStr '''' \<noteq> VNone"
  by code_simp

text \<open>
  C6, amended. In \<open>get_basic_details\<close> each of the four fields depends on its own
  lookup only: a failed lookup gives the empty string, a lookup that succeeds gives the
  normalized text for the name (as the caller reads it), the text before the first
  newline for the location and the text itself for the description and the company. In
  every record that \<open>get_experience\<close>, \<open>get_projects\<close> and \<open>get_certification\<close>
  return, an optional field whose node is absent is \<open>None\<close>: the company, the company
  link, the start and end dates, the duration, the location and the description of an
  experience; the dates, the description and the link of a project; the title, the
  issuer, the date and the link of a certification. \<open>get_about\<close> gives \<open>None\<close> when
  there is no paragraph.
\<close>

theorem absent_fields:
  "subscript0 (get_basic_details d) ''user_name'' =
     Inr (VStr (case h1_text d of None \<Rightarrow> [] | Some t \<Rightarrow> extract_text_only (Str t))) \<and>
   subscript (get_basic_details d) ''user_description'' =
     Inr (VStr (case h2_text d of None \<Rightarrow> [] | Some t \<Rightarrow> t)) \<and>
   subscript (get_basic_details d) ''user_location'' =
     Inr (VStr (case h3_text d of None \<Rightarrow> [] | Some t \<Rightarrow> takeWhile (\<lambda>c. c \<noteq> CHR 0x0A) t)) \<and>
   subscript (get_basic_details d) ''current_company'' =
     Inr (VStr (case company_text d of None \<Rightarrow> [] | Some t \<Rightarrow> t)) \<and>
   (get_experience experiences = Inr ds \<and> i < length experiences \<longrightarrow>
      subscript (ds ! i) ''company'' =
        Inr (opt_val (map_option (\<lambda>(h, t). extract_text_only (Str t))
                        (exp_subtitle_link (experiences ! i)))) \<and>
      (exp_subtitle_link (experiences ! i) = None \<longrightarrow>
         subscript (ds ! i) ''company_link'' = Inr VNone) \<and>
      (exp_date_range (experiences ! i) = None \<longrightarrow>
         subscript (ds ! i) ''start_date'' = Inr VNone \<and>
         subscript (ds ! i) ''end_date'' = Inr VNone) \<and>
      subscript (ds ! i) ''duration'' =
        Inr (opt_val (map_option (\<lambda>t. extract_text_only (Str t)) (exp_duration (experiences ! i)))) \<and>
      subscript (ds ! i) ''location'' =
        Inr (opt_val (map_option (\<lambda>t. extract_text_only (Str t)) (exp_location (experiences ! i)))) \<and>
      (exp_text_less (experiences ! i) = None \<longrightarrow>
         subscript (ds ! i) ''description'' = Inr VNone)) \<and>
   (get_projects projects = Inr ps \<and> k < length projects \<longrightarrow>
      (proj_date_range (projects ! k) = None \<longrightarrow>
         subscript (ps ! k) ''start_date'' = Inr VNone \<and>
         subscript (ps ! k) ''end_date'' = Inr VNone) \<and>
      (proj_text_less (projects ! k) = None \<longrightarrow>
         subscript (ps ! k) ''description'' = Inr VNone) \<and>
      (proj_button (projects ! k) = None \<longrightarrow>
         subscript (ps ! k) ''project_link'' = Inr VNone)) \<and>
   (n < length certifications \<longrightarrow>
      subscript (get_certification certifications ! n) ''certification'' =
        Inr (opt_val (map_option (\<lambda>t. extract_text_only (Str t)) (cert_title (certifications ! n)))) \<and>
      subscript (get_certification certifications ! n) ''certified_by'' =
        Inr (opt_val (map_option (\<lambda>t. extract_text_only (Str t))
                        (cert_subtitle (certifications ! n)))) \<and>
      subscript (get_certification certifications ! n) ''issued_on'' =
        Inr (opt_val (map_option (\<lambda>t. extract_text_only (Str t))
                        (cert_date_range (certifications ! n)))) \<and>
      subscript (get_certification certifications ! n) ''certificate_link'' =
        Inr (case cert_button (certifications ! n) of None \<Rightarrow> VNone | Some href \<Rightarrow> opt_val href)) \<and>
   get_about None = None"
proof -
  have loc: "(if CHR 0x0A \<in> set t
              then (case split_on (CHR 0x0A) t of [] \<Rightarrow> [] | s0 # _ \<Rightarrow> s0) else t) =
             takeWhile (\<lambda>c. c \<noteq> CHR 0x0A) t" for t
  proof (cases "CHR 0x0A \<in> set t")
    case True
    obtain r where "split_on (CHR 0x0A) t = takeWhile (\<lambda>c. c \<noteq> CHR 0x0A) t # r"
      using hd_split_on by blast
    then show ?thesis using True by simp
  next
    case False
    then have tw: "takeWhile (\<lambda>c. c \<noteq> CHR 0x0A) t = t"
      by (induction t) auto
    show ?thesis by (simp only: False if_False tw)
  qed
  have b1: "subscript0 (get_basic_details d) ''user_name'' =
     Inr (VStr (case h1_text d of None \<Rightarrow> [] | Some t \<Rightarrow> extract_text_only (Str t)))"
    by (simp add: subscript0_def get_basic_details_def Let_def)
  have b2: "subscript (get_basic_details d) ''user_description'' =
     Inr (VStr (case h2_text d of None \<Rightarrow> [] | Some t \<Rightarrow> t))"
    by (simp add: get_basic_details_def Let_def)
  have b3: "subscript (get_basic_details d) ''user_location'' =
     Inr (VStr (case h3_text d of None \<Rightarrow> [] | Some t \<Rightarrow> takeWhile (\<lambda>c. c \<noteq> CHR 0x0A) t))"
    using loc by (simp add: get_basic_details_def Let_def split: option.splits)
  have b4: "subscript (get_basic_details d) ''current_company'' =
     Inr (VStr (case company_text d of None \<Rightarrow> [] | Some t \<Rightarrow> t))"
    by (simp add: get_basic_details_def Let_def)
  have e: "get_experience experiences = Inr ds \<and> i < length experiences \<longrightarrow>
      subscript (ds ! i) ''company'' =
        Inr (opt_val (map_option (\<lambda>(h, t). extract_text_only (Str t))
                        (exp_subtitle_link (experiences ! i)))) \<and>
      (exp_subtitle_link (experiences ! i) = None \<longrightarrow>
         subscript (ds ! i) ''company_link'' = Inr VNone) \<and>
      (exp_date_range (experiences ! i) = None \<longrightarrow>
         subscript (ds ! i) ''start_date'' = Inr VNone \<and>
         subscript (ds ! i) ''end_date'' = Inr VNone) \<and>
      subscript (ds ! i) ''duration'' =
        Inr (opt_val (map_option (\<lambda>t. extract_text_only (Str t)) (exp_duration (experiences ! i)))) \<and>
      subscript (ds ! i) ''location'' =
        Inr (opt_val (map_option (\<lambda>t. extract_text_only (Str t)) (exp_location (experiences ! i)))) \<and>
      (exp_text_less (experiences ! i) = None \<longrightarrow>
         subscript (ds ! i) ''description'' = Inr VNone)"
  proof
    assume a: "get_experience experiences = Inr ds \<and> i < length experiences"
    then have "experience_entry (experiences ! i) = Inr (ds ! i)"
      unfolding get_experience_def using collect_nth by blast
    then show "subscript (ds ! i) ''company'' =
        Inr (opt_val (map_option (\<lambda>(h, t). extract_text_only (Str t))
                        (exp_subtitle_link (experiences ! i)))) \<and>
      (exp_subtitle_link (experiences ! i) = None \<longrightarrow>
         subscript (ds ! i) ''company_link'' = Inr VNone) \<and>
      (exp_date_range (experiences ! i) = None \<longrightarrow>
         subscript (ds ! i) ''start_date'' = Inr VNone \<and>
         subscript (ds ! i) ''end_date'' = Inr VNone) \<and>
      subscript (ds ! i) ''duration'' =
        Inr (opt_val (map_option (\<lambda>t. extract_text_only (Str t)) (exp_duration (experiences ! i)))) \<and>
      subscript (ds ! i) ''location'' =
        Inr (opt_val (map_option (\<lambda>t. extract_text_only (Str t)) (exp_location (experiences ! i)))) \<and>
      (exp_text_less (experiences ! i) = None \<longrightarrow>
         subscript (ds ! i) ''description'' = Inr VNone)"
      using experience_entry_optional_case [of "experiences ! i"] by simp
  qed
  have p: "get_projects projects = Inr ps \<and> k < length projects \<longrightarrow>
      (proj_date_range (projects ! k) = None \<longrightarrow>
         subscript (ps ! k) ''start_date'' = Inr VNone \<and>
         subscript (ps ! k) ''end_date'' = Inr VNone) \<and>
      (proj_text_less (projects ! k) = None \<longrightarrow>
         subscript (ps ! k) ''description'' = Inr VNone) \<and>
      (proj_button (projects ! k) = None \<longrightarrow>
         subscript (ps ! k) ''project_link'' = Inr VNone)"
  proof
    assume a: "get_projects projects = Inr ps \<and> k < length projects"
    then have "project_entry (projects ! k) = Inr (ps ! k)"
      unfolding get_projects_def using collect_nth by blast
    then show "(proj_date_range (projects ! k) = None \<longrightarrow>
         subscript (ps ! k) ''start_date'' = Inr VNone \<and>
         subscript (ps ! k) ''end_date'' = Inr VNone) \<and>
      (proj_text_less (projects ! k) = None \<longrightarrow>
         subscript (ps ! k) ''description'' = Inr VNone) \<and>
      (proj_button (projects ! k) = None \<longrightarrow>
         subscript (ps ! k) ''project_link'' = Inr VNone)"
      using project_entry_optional_case [of "projects ! k"] by simp
  qed
  have c: "n < length certifications \<longrightarrow>
      subscript (get_certification certifications ! n) ''certification'' =
        Inr (opt_val (map_option (\<lambda>t. extract_text_only (Str t)) (cert_title (certifications ! n)))) \<and>
      subscript (get_certification certifications ! n) ''certified_by'' =
        Inr (opt_val (map_option (\<lambda>t. extract_text_only (Str t))
                        (cert_subtitle (certifications ! n)))) \<and>
      subscript (get_certification certifications ! n) ''issued_on'' =
        Inr (opt_val (map_option (\<lambda>t. extract_text_only (Str t))
                        (cert_date_range (certifications ! n)))) \<and>
      subscript (get_certification certifications ! n) ''certificate_link'' =
        Inr (case cert_button (certifications ! n) of None \<Rightarrow> VNone | Some href \<Rightarrow> opt_val href)"
    by (simp add: get_certification_def certification_entry_fields)
  have g: "get_about None = None"
    by (simp add: get_about_def)
  show ?thesis
    using b1 b2 b3 b4 e p c g by blast
qed

theorem absent_fields_witness:
  "\<exists>ds ps. get_experience [volunteer_item] = Inr ds \<and> get_projects [untitled_project] = Inr ps \<and>
     subscript (ds ! 0) ''company'' = Inr VNone \<and>
     subscript (ds ! 0) ''company_link'' = Inr VNone \<and>
     subscript (ds ! 0) ''start_date'' = Inr VNone \<and>
     subscript (ds ! 0) ''end_date'' = Inr VNone \<and>
     subscript (ds ! 0) ''duration'' = Inr VNone \<and>
     subscript (ds ! 0) ''location'' = Inr VNone \<and>
     subscript (ds ! 0) ''description'' = Inr VNone \<and>
     subscript (ps ! 0) ''start_date'' = Inr VNone \<and>
     subscript (ps ! 0) ''end_date'' = Inr VNone \<and>
     subscript (ps ! 0) ''description'' = Inr VNone \<and>
     subscript (ps ! 0) ''project_link'' = Inr VNone \<and>
     subscript (get_certification [blank_certificate] ! 0) ''certification'' = Inr VNone \<and>
     subscript (get_certification [blank_certificate] ! 0) ''certified_by'' = Inr VNone \<and>
     subscript (get_certification [blank_certificate] ! 0) ''issued_on'' = Inr VNone \<and>
     subscript (get_certification [blank_certificate] ! 0) ''certificate_link'' = Inr VNone \<and>
     subscript0 (get_basic_details nameless_details) ''user_name'' = Inr (VStr '''') \<and>
     subscript (get_basic_details nameless_details) ''user_location'' = Inr (VStr ''Pune'')"
proof -
  have "\<not> isl (get_experience [volunteer_item])"
    by code_simp
  then obtain ds where ds: "get_experience [volunteer_item] = Inr ds"
    by (cases "get_experience [volunteer_item]") auto
  have "\<not> isl (get_projects [untitled_project])"
    by code_simp
  then obtain ps where ps: "get_projects [untitled_project] = Inr ps"
    by (cases "get_projects [untitled_project]") auto
  have h: "exp_subtitle_link ([volunteer_item] ! 0) = None"
    "exp_date_range ([volunteer_item] ! 0) = None"
    "exp_duration ([volunteer_item] ! 0) = None"
    "exp_location ([volunteer_item] ! 0) = None"
    "exp_text_less ([volunteer_item] ! 0) = None"
    "proj_date_range ([untitled_project] ! 0) = None"
    "proj_text_less ([untitled_project] ! 0) = None"
    "proj_button ([untitled_project] ! 0) = None"
    "cert_title ([blank_certificate] ! 0) = None"
    "cert_subtitle ([blank_certificate] ! 0) = None"
    "cert_date_range ([blank_certificate] ! 0) = None"
    "cert_button ([blank_certificate] ! 0) = None"
    "h1_text nameless_details = None"
    by (simp_all add: volunteer_item_def untitled_project_def blank_certificate_def
        nameless_details_def)
  have l: "subscript (get_basic_details nameless_details) ''user_location'' = Inr (VStr ''Pune'')"
    by code_simp
  have "subscript (ds ! 0) ''company'' = Inr VNone \<and>
     subscript (ds ! 0) ''company_link'' = Inr VNone \<and>
     subscript (ds ! 0) ''start_date'' = Inr VNone \<and>
     subscript (ds ! 0) ''end_date'' = Inr VNone \<and>
     subscript (ds ! 0) ''duration'' = Inr VNone \<and>
     subscript (ds ! 0) ''location'' = Inr VNone \<and>
     subscript (ds ! 0) ''description'' = Inr VNone \<and>
     subscript (ps ! 0) ''start_date'' = Inr VNone \<and>
     subscript (ps ! 0) ''end_date'' = Inr VNone \<and>
     subscript (ps ! 0) ''description'' = Inr VNone \<and>
     subscript (ps ! 0) ''project_link'' = Inr VNone \<and>
     subscript (get_certification [blank_certificate] ! 0) ''certification'' = Inr VNone \<and>
     subscript (get_certification [blank_certificate] ! 0) ''certified_by'' = Inr VNone \<and>
     subscript (get_certification [blank_certificate] ! 0) ''issued_on'' = Inr VNone \<and>
     subscript (get_certification [blank_certificate] ! 0) ''certificate_link'' = Inr VNone \<and>
     subscript0 (get_basic_details nameless_details) ''user_name'' = Inr (VStr '''')"
    using absent_fields [of nameless_details "[volunteer_item]" ds 0 "[untitled_project]" ps 0
        0 "[blank_certificate]"] ds ps h
    by simp
  then show ?thesis using ds ps l by blast
qed


section \<open>Properties of the crawl\<close>

lemma crawl_next_control:
  assumes "links page = Some linkedin_links"
    and "visit_links role linkedin_links total_data = Inr total_data'"
  shows "crawl role (page # pages) total_data =
           (case pnnext page of
              None \<Rightarrow> Some (Inl NoSuchElementException)
            | Some False \<Rightarrow> Some (Inr total_data')
            | Some True \<Rightarrow>
                if next_click_ok page then crawl role pages total_data'
                else Some (Inl WebDriverException))"
  using assms by (simp split: option.splits bool.splits)

lemma quit_calls_of_run:
  assumes "get_data_from_google role pages = Some r"
  shows "quit_calls r = (if raised r = None then 1 else 0)"
  using assms unfolding get_data_from_google_def
  by (auto split: option.splits sum.splits)

text \<open>
  C1, on the source. When no element has the id \<open>pnnext\<close>, the lookup after the
  links of the page raises \<open>NoSuchElementException\<close> outside every handler: the run
  ends with that exception, not with \<open>next_exists\<close> false. Only a control that is
  there and not displayed ends the loop.
\<close>

theorem next_control_absent:
  "links page_without_next = Some [analyst_link, timed_out_link] \<and>
   pnnext page_without_next = None \<and>
   map_option raised (get_data_from_google ''data analyst'' [page_without_next]) =
     Some (Some NoSuchElementException) \<and>
   map_option quit_calls (get_data_from_google ''data analyst'' [page_without_next]) = Some 0 \<and>
   map_option raised (get_data_from_google ''data analyst'' [page_hidden_next]) = Some None"
  by code_simp

text \<open>
  C2, on the source. An exception that leaves the loop (here the \<open>IndexError\<close> of a
  date range with no hyphen) ends the run before \<open>driver.quit()\<close>, which is called
  once only on the runs whose loop ends, as after a timeout of the wait for the links.
\<close>

theorem quit_not_reached:
  "map_option raised (get_data_from_google ''python developer'' [engineer_page]) =
     Some (Some IndexError) \<and>
   map_option quit_calls (get_data_from_google ''python developer'' [engineer_page]) = Some 0 \<and>
   map_option quit_calls (get_data_from_google ''python developer'' [page_timed_out]) = Some 1"
  by code_simp







end
